theory Spec2Isabelle
  imports Complex_Main
begin

section \<open>Data model (models/schemas.py, workflow.py)\<close>

text \<open>
  The enumerations of \<^verbatim>\<open>models/schemas.py\<close>. \<^verbatim>\<open>QueryType\<close> and \<^verbatim>\<open>AgentType\<close> share
  member names in the source; the members of \<^verbatim>\<open>AgentType\<close> carry the prefix \<open>Agent_\<close> here.
\<close>

datatype QueryType = RESEARCH | CODE | DECISION | GENERAL

datatype QueryStatus = PENDING | PROCESSING | COMPLETED | FAILED | CANCELLED

datatype AgentType = Agent_RESEARCH | Agent_CODE | Agent_DECISION | Agent_ORCHESTRATOR

datatype ProcessingPriority = LOW | MEDIUM | HIGH | CRITICAL

fun agent_type_value :: "AgentType \<Rightarrow> string" where
  "agent_type_value Agent_RESEARCH = ''RESEARCH''"
| "agent_type_value Agent_CODE = ''CODE''"
| "agent_type_value Agent_DECISION = ''DECISION''"
| "agent_type_value Agent_ORCHESTRATOR = ''ORCHESTRATOR''"

fun priority_value :: "ProcessingPriority \<Rightarrow> string" where
  "priority_value LOW = ''LOW''"
| "priority_value MEDIUM = ''MEDIUM''"
| "priority_value HIGH = ''HIGH''"
| "priority_value CRITICAL = ''CRITICAL''"

text \<open>
  \<^verbatim>\<open>AgentResponse\<close>. Python floats are modelled as exact reals; a string is a list of
  characters, one \<open>char\<close> for each character that Python's \<^verbatim>\<open>len\<close> counts.
\<close>

record AgentResponse =
  agent_type :: AgentType
  content :: string
  confidence :: real
  processing_time :: real
  response_metadata :: "(string \<times> string) list"
  sources :: "string list"
  error :: "string option"

datatype BaseMessage = HumanMessage string | AIMessage string | SystemMessage string

text \<open>The dictionary stored under \<^verbatim>\<open>metadata["validation"]\<close> by the validator.\<close>

record ValidationInfo =
  is_valid :: bool
  issues :: "string list"
  timestamp :: string

text \<open>
  \<^verbatim>\<open>metadata\<close>: the caller's entries, and the entry \<^verbatim>\<open>"validation"\<close>, which is the only
  one the workflow reads or writes.
\<close>

record Metadata =
  entries :: "(string \<times> string) list"
  validation :: "ValidationInfo option"

text \<open>
  \<^verbatim>\<open>WorkflowState\<close>. A Python \<^verbatim>\<open>dict\<close> is an association list in insertion order with
  distinct keys, maintained by \<open>dict_set\<close>.
\<close>

record WorkflowState =
  query_id :: string
  original_query :: string
  query_type :: QueryType
  priority :: ProcessingPriority
  next_agent :: "string option"
  agents_visited :: "string list"
  messages :: "BaseMessage list"
  agent_responses :: "(string \<times> AgentResponse) list"
  current_status :: QueryStatus
  confidence_scores :: "(string \<times> real) list"
  processing_times :: "(string \<times> real) list"
  final_response :: "string option"
  total_confidence :: real
  metadata :: Metadata
  errors :: "string list"
  retry_count :: int

text \<open>\<^verbatim>\<open>d[k] = v\<close>: replace the value in place when the key exists, append otherwise.\<close>

fun dict_set :: "('k \<times> 'v) list \<Rightarrow> 'k \<Rightarrow> 'v \<Rightarrow> ('k \<times> 'v) list" where
  "dict_set [] k v = [(k, v)]"
| "dict_set ((k', v') # kvs) k v =
     (if k' = k then (k, v) # kvs else (k', v') # dict_set kvs k v)"

text \<open>\<^verbatim>\<open>d.get(k, default)\<close>.\<close>

definition dict_get :: "('k \<times> 'v) list \<Rightarrow> 'k \<Rightarrow> 'v \<Rightarrow> 'v" where
  "dict_get d k dflt = (case map_of d k of None \<Rightarrow> dflt | Some v \<Rightarrow> v)"

definition dict_keys :: "('k \<times> 'v) list \<Rightarrow> 'k list" where
  "dict_keys d = map fst d"

subsection \<open>Strings\<close>

text \<open>\<^verbatim>\<open>str.lower()\<close> on the ASCII letters.\<close>

definition char_lower :: "char \<Rightarrow> char" where
  "char_lower c =
     (let n = (of_char c :: nat) in if 65 \<le> n \<and> n \<le> 90 then char_of (n + 32) else c)"

definition str_lower :: "string \<Rightarrow> string" where
  "str_lower s = map char_lower s"

text \<open>\<^verbatim>\<open>p in s\<close> for strings: \<open>p\<close> occurs in \<open>s\<close> as a contiguous block.\<close>

fun str_contains :: "string \<Rightarrow> string \<Rightarrow> bool" where
  "str_contains p [] = (p = [])"
| "str_contains p (c # cs) = (take (length p) (c # cs) = p \<or> str_contains p cs)"

text \<open>\<^verbatim>\<open>str(n)\<close> for a length.\<close>

definition digit_char :: "nat \<Rightarrow> char" where
  "digit_char d = char_of (48 + d)"

function str_nat :: "nat \<Rightarrow> string" where
  "str_nat n = (if n < 10 then [digit_char n] else str_nat (n div 10) @ [digit_char (n mod 10)])"
  by pat_completeness auto
termination
  by (relation "measure id") auto

declare str_nat.simps [simp del]

section \<open>External collaborators and configuration\<close>

text \<open>
  What the workflow consumes from outside, as parameters. A collaborator call either
  raises, \<open>Inl\<close> of the text \<^verbatim>\<open>str(e)\<close> of the exception, or returns. Each call receives
  the whole current state, so that a collaborator may answer differently at each call.
  \<^item> \<open>retry_max_attempts\<close>: \<^verbatim>\<open>settings.retry_max_attempts\<close> (an \<^verbatim>\<open>int\<close>, default 3);
  \<^item> \<open>decision_route_query\<close>: \<^verbatim>\<open>DecisionAgent.route_query\<close>, which catches its own
    exceptions and always returns a list of agents and a priority;
  \<^item> \<open>research_agent_process\<close>, \<open>code_agent_process\<close>, \<open>decision_agent_process\<close>: the
    \<^verbatim>\<open>process\<close> call of each agent, returning the response and the measured duration;
  \<^item> \<open>llm_ainvoke\<close>: \<^verbatim>\<open>decision_agent.llm.ainvoke\<close> on the synthesis prompt, returning
    the \<^verbatim>\<open>content\<close> of its answer;
  \<^item> \<open>format_2f\<close>: the float format \<^verbatim>\<open>:.2f\<close>;
  \<^item> \<open>utcnow_isoformat\<close>: \<^verbatim>\<open>datetime.utcnow().isoformat()\<close>.
\<close>

record Env =
  retry_max_attempts :: int
  decision_route_query :: "WorkflowState \<Rightarrow> AgentType list \<times> ProcessingPriority"
  research_agent_process :: "WorkflowState \<Rightarrow> string + (AgentResponse \<times> real)"
  code_agent_process :: "WorkflowState \<Rightarrow> string + (AgentResponse \<times> real)"
  decision_agent_process :: "WorkflowState \<Rightarrow> string + (AgentResponse \<times> real)"
  llm_ainvoke :: "WorkflowState \<Rightarrow> string + string"
  format_2f :: "real \<Rightarrow> string"
  utcnow_isoformat :: "WorkflowState \<Rightarrow> string"

section \<open>Workflow nodes (OrchestrationWorkflow)\<close>

definition route_query :: "Env \<Rightarrow> WorkflowState \<Rightarrow> WorkflowState" where
  "route_query env s =
     (let (agents, prio) = decision_route_query env s;
          nxt = (case agents of
                   [] \<Rightarrow> ''research''
                 | a # _ \<Rightarrow> str_lower (agent_type_value a))
      in s\<lparr>priority := prio,
           current_status := PROCESSING,
           next_agent := Some nxt,
           messages := messages s @
             [SystemMessage (''Query routed to '' @ nxt @ '' agent with '' @
                             priority_value prio @ '' priority'')]\<rparr>)"

definition research_node :: "Env \<Rightarrow> WorkflowState \<Rightarrow> WorkflowState" where
  "research_node env s =
     (case research_agent_process env s of
        Inr (response, elapsed) \<Rightarrow>
          s\<lparr>agent_responses := dict_set (agent_responses s) ''research'' response,
            confidence_scores := dict_set (confidence_scores s) ''research'' (confidence response),
            processing_times := dict_set (processing_times s) ''research'' elapsed,
            agents_visited := agents_visited s @ [''research''],
            messages := messages s @
              [AIMessage (''Research completed: '' @ take 200 (content response) @ ''...'')]\<rparr>
      | Inl e \<Rightarrow>
          s\<lparr>errors := errors s @ [''Research agent: '' @ e],
            agent_responses := dict_set (agent_responses s) ''research''
              \<lparr>agent_type = Agent_RESEARCH, content = ''Research failed'', confidence = 0,
               processing_time = 0, response_metadata = [], sources = [], error = Some e\<rparr>\<rparr>)"

definition code_node :: "Env \<Rightarrow> WorkflowState \<Rightarrow> WorkflowState" where
  "code_node env s =
     (case code_agent_process env s of
        Inr (response, elapsed) \<Rightarrow>
          s\<lparr>agent_responses := dict_set (agent_responses s) ''code'' response,
            confidence_scores := dict_set (confidence_scores s) ''code'' (confidence response),
            processing_times := dict_set (processing_times s) ''code'' elapsed,
            agents_visited := agents_visited s @ [''code''],
            messages := messages s @
              [AIMessage (''Code generation completed: '' @ take 200 (content response) @ ''...'')]\<rparr>
      | Inl e \<Rightarrow>
          s\<lparr>errors := errors s @ [''Code agent: '' @ e],
            agent_responses := dict_set (agent_responses s) ''code''
              \<lparr>agent_type = Agent_CODE, content = ''Code generation failed'', confidence = 0,
               processing_time = 0, response_metadata = [], sources = [], error = Some e\<rparr>\<rparr>)"

definition decision_node :: "Env \<Rightarrow> WorkflowState \<Rightarrow> WorkflowState" where
  "decision_node env s =
     (case decision_agent_process env s of
        Inr (response, elapsed) \<Rightarrow>
          s\<lparr>agent_responses := dict_set (agent_responses s) ''decision'' response,
            confidence_scores := dict_set (confidence_scores s) ''decision'' (confidence response),
            processing_times := dict_set (processing_times s) ''decision'' elapsed,
            agents_visited := agents_visited s @ [''decision''],
            messages := messages s @
              [AIMessage (''Decision made: '' @ take 200 (content response) @ ''...'')]\<rparr>
      | Inl e \<Rightarrow>
          s\<lparr>errors := errors s @ [''Decision agent: '' @ e],
            agent_responses := dict_set (agent_responses s) ''decision''
              \<lparr>agent_type = Agent_DECISION, content = ''Decision failed'', confidence = 0,
               processing_time = 0, response_metadata = [], sources = [], error = Some e\<rparr>\<rparr>)"

text \<open>
  The loop of \<^verbatim>\<open>synthesize_responses\<close> that accumulates \<^verbatim>\<open>total_confidence\<close> and
  \<^verbatim>\<open>total_weight\<close> over \<^verbatim>\<open>responses.items()\<close>.
\<close>

fun weighted_confidence ::
  "(string \<times> AgentResponse) list \<Rightarrow> real \<times> real \<Rightarrow> real \<times> real" where
  "weighted_confidence [] (tc, tw) = (tc, tw)"
| "weighted_confidence ((agent_name, response) # rest) (tc, tw) =
     (let weight = (if error response = None then 1 else 1 / 2)
      in weighted_confidence rest (tc + confidence response * weight, tw + weight))"

definition synthesize_responses :: "Env \<Rightarrow> WorkflowState \<Rightarrow> WorkflowState" where
  "synthesize_responses env s =
     (let responses = agent_responses s in
      if responses = [] then
        s\<lparr>final_response := Some ''No agent responses available'', total_confidence := 0\<rparr>
      else if length responses = 1 then
        (let response = snd (hd responses)
         in s\<lparr>final_response := Some (content response),
              total_confidence := confidence response\<rparr>)
      else
        (case llm_ainvoke env s of
           Inr synthesized \<Rightarrow>
             (let (tc, tw) = weighted_confidence responses (0, 0);
                  conf = (if tw > 0 then tc / tw else 1 / 2)
              in s\<lparr>total_confidence := conf,
                   final_response := Some synthesized,
                   messages := messages s @
                     [SystemMessage (''Synthesis completed with confidence: '' @
                                     format_2f env conf)]\<rparr>)
         | Inl e \<Rightarrow>
             s\<lparr>errors := errors s @ [''Synthesis: '' @ e],
               final_response := Some ''Failed to synthesize responses'',
               total_confidence := 0\<rparr>))"

text \<open>
  \<^verbatim>\<open>validate_response\<close>. \<open>truthy\<close> is Python's truth value of the optional string
  \<^verbatim>\<open>state.get("final_response")\<close>: false for \<^verbatim>\<open>None\<close> and for the empty string.
\<close>

fun truthy :: "string option \<Rightarrow> bool" where
  "truthy None = False"
| "truthy (Some r) = (r \<noteq> [])"

fun len_opt :: "string option \<Rightarrow> nat" where
  "len_opt None = 0"
| "len_opt (Some r) = length r"

definition validate_response :: "Env \<Rightarrow> WorkflowState \<Rightarrow> WorkflowState" where
  "validate_response env s =
     (let v0 = (True, []);
          v1 = (if \<not> truthy (final_response s)
                then (False, snd v0 @ [''No final response generated'']) else v0);
          v2 = (if total_confidence s < 3 / 10
                then (False, snd v1 @ [''Low confidence: '' @ format_2f env (total_confidence s)])
                else v1);
          v3 = (if length (errors s) > 2
                then (False, snd v2 @ [''Too many errors: '' @ str_nat (length (errors s))])
                else v2);
          v4 = (if truthy (final_response s) \<and> len_opt (final_response s) < 50
                then (False, snd v3 @ [''Response too short'']) else v3);
          valid = fst v4;
          s1 = s\<lparr>metadata := (metadata s)\<lparr>validation :=
                  Some \<lparr>is_valid = valid, issues = snd v4,
                        timestamp = utcnow_isoformat env s\<rparr>\<rparr>\<rparr>
      in if \<not> valid \<and> retry_count s < retry_max_attempts env
         then s1\<lparr>retry_count := retry_count s + 1, current_status := PROCESSING\<rparr>
         else s1\<lparr>current_status := (if valid then COMPLETED else FAILED)\<rparr>)"

subsection \<open>Routing functions\<close>

definition determine_next_agent :: "WorkflowState \<Rightarrow> string" where
  "determine_next_agent s =
     (if query_type s = RESEARCH then ''research''
      else if query_type s = CODE then ''code''
      else if query_type s = DECISION then ''decision''
      else ''research'')"

definition after_research :: "WorkflowState \<Rightarrow> string" where
  "after_research s =
     (if ''code'' \<notin> set (agents_visited s) \<and>
         (query_type s = CODE \<or> str_contains ''code'' (str_lower (original_query s)))
      then ''code''
      else if ''decision'' \<notin> set (agents_visited s) \<and> query_type s = DECISION
      then ''decision''
      else ''synthesizer'')"

definition after_code :: "WorkflowState \<Rightarrow> string" where
  "after_code s =
     (if ''research'' \<notin> set (agents_visited s) \<and>
         (query_type s = DECISION \<or> dict_get (confidence_scores s) ''code'' 0 < 7 / 10)
      then ''research''
      else ''synthesizer'')"

definition after_decision :: "WorkflowState \<Rightarrow> string" where
  "after_decision s = ''synthesizer''"

text \<open>
  \<^verbatim>\<open>should_retry\<close>: \<^verbatim>\<open>validation.get("is_valid")\<close> is \<^verbatim>\<open>None\<close>, hence false, when the state
  has no validation entry.
\<close>

definition should_retry :: "Env \<Rightarrow> WorkflowState \<Rightarrow> string" where
  "should_retry env s =
     (let valid = (case validation (metadata s) of None \<Rightarrow> False | Some v \<Rightarrow> is_valid v)
      in if \<not> valid \<and> retry_count s < retry_max_attempts env then ''router'' else ''end'')"

section \<open>The workflow graph and \<^verbatim>\<open>execute\<close>\<close>

text \<open>
  The nodes registered by \<^verbatim>\<open>_build_workflow\<close>, and the terminal \<^verbatim>\<open>END\<close>.
\<close>

datatype Node =
  Node_router | Node_research | Node_code | Node_decision | Node_synthesizer |
  Node_validator | Node_END

text \<open>The dictionaries passed to \<^verbatim>\<open>add_conditional_edges\<close>, one for each source node.\<close>

definition router_edges :: "(string \<times> Node) list" where
  "router_edges =
     [(''research'', Node_research), (''code'', Node_code), (''decision'', Node_decision),
      (''synthesizer'', Node_synthesizer)]"

definition research_edges :: "(string \<times> Node) list" where
  "research_edges =
     [(''code'', Node_code), (''decision'', Node_decision),
      (''synthesizer'', Node_synthesizer), (''validator'', Node_validator)]"

definition code_edges :: "(string \<times> Node) list" where
  "code_edges =
     [(''research'', Node_research), (''decision'', Node_decision),
      (''synthesizer'', Node_synthesizer), (''validator'', Node_validator)]"

definition decision_edges :: "(string \<times> Node) list" where
  "decision_edges =
     [(''research'', Node_research), (''code'', Node_code),
      (''synthesizer'', Node_synthesizer), (''validator'', Node_validator)]"

definition validator_edges :: "(string \<times> Node) list" where
  "validator_edges = [(''router'', Node_router), (''end'', Node_END)]"

text \<open>The function each node runs.\<close>

fun run_node :: "Env \<Rightarrow> Node \<Rightarrow> WorkflowState \<Rightarrow> WorkflowState" where
  "run_node env Node_router s = route_query env s"
| "run_node env Node_research s = research_node env s"
| "run_node env Node_code s = code_node env s"
| "run_node env Node_decision s = decision_node env s"
| "run_node env Node_synthesizer s = synthesize_responses env s"
| "run_node env Node_validator s = validate_response env s"
| "run_node env Node_END s = s"

text \<open>
  The edge taken after a node has returned the state \<open>s\<close>: the routing function's answer
  looked up in the node's edge dictionary (\<open>None\<close> when the answer is not a key of it);
  the synthesizer has the one unconditional edge to the validator.
\<close>

fun next_node :: "Env \<Rightarrow> Node \<Rightarrow> WorkflowState \<Rightarrow> Node option" where
  "next_node env Node_router s = map_of router_edges (determine_next_agent s)"
| "next_node env Node_research s = map_of research_edges (after_research s)"
| "next_node env Node_code s = map_of code_edges (after_code s)"
| "next_node env Node_decision s = map_of decision_edges (after_decision s)"
| "next_node env Node_synthesizer s = Some Node_validator"
| "next_node env Node_validator s = map_of validator_edges (should_retry env s)"
| "next_node env Node_END s = None"

text \<open>
  Running the graph from node \<open>n\<close>: each node receives the state its predecessor
  returned. The graph may cycle (validator to router, and code to research and back), so
  the run takes a bound on the number of node executions: \<open>None\<close> when the bound is
  reached before \<^verbatim>\<open>END\<close>, \<open>Some (Inl (type, text))\<close> when the run raises, and
  \<open>Some (Inr s)\<close> with the last state when it reaches \<^verbatim>\<open>END\<close>.
\<close>

fun run_graph ::
  "nat \<Rightarrow> Env \<Rightarrow> Node \<Rightarrow> WorkflowState \<Rightarrow> ((string \<times> string) + WorkflowState) option" where
  "run_graph fuel env Node_END s = Some (Inr s)"
| "run_graph 0 env n s = None"
| "run_graph (Suc fuel) env n s =
     (let s' = run_node env n s in
      case next_node env n s' of
        None \<Rightarrow> Some (Inl (''KeyError'', ''unknown edge''))
      | Some n' \<Rightarrow> run_graph fuel env n' s')"

text \<open>The dictionary \<^verbatim>\<open>execute\<close> returns.\<close>

record ExecuteResult =
  result_query_id :: string
  result_status :: QueryStatus
  result_response :: "string option"
  result_confidence :: real
  result_agents_used :: "string list"
  result_processing_times :: "(string \<times> real) list"
  result_errors :: "string list"
  result_metadata :: Metadata

definition initial_state ::
  "string \<Rightarrow> string \<Rightarrow> QueryType \<Rightarrow> (string \<times> string) list \<Rightarrow> WorkflowState" where
  "initial_state qid query qtype md =
     \<lparr>query_id = qid, original_query = query, query_type = qtype, priority = MEDIUM,
      next_agent = None, agents_visited = [], messages = [HumanMessage query],
      agent_responses = [], current_status = PENDING, confidence_scores = [],
      processing_times = [], final_response = None, total_confidence = 0,
      metadata = \<lparr>entries = md, validation = None\<rparr>, errors = [], retry_count = 0\<rparr>"

text \<open>
  \<^verbatim>\<open>execute\<close>: the result built from the last state of the run, or the result of the
  \<^verbatim>\<open>except\<close> branch when the run raised; \<open>None\<close> when the run has not ended within
  \<open>fuel\<close> node executions. The stream \<^verbatim>\<open>astream\<close> is taken to yield, after each node,
  the state that the node returned, which is how the loop of \<^verbatim>\<open>execute\<close> reads its items
  (\<^verbatim>\<open>"messages" in state\<close>); the last item is then the state the last node returned.
\<close>

definition execute ::
  "nat \<Rightarrow> Env \<Rightarrow> string \<Rightarrow> string \<Rightarrow> QueryType \<Rightarrow> (string \<times> string) list \<Rightarrow>
   ExecuteResult option" where
  "execute fuel env qid query qtype md =
     (case run_graph fuel env Node_router (initial_state qid query qtype md) of
        None \<Rightarrow> None
      | Some (Inr final_state) \<Rightarrow>
          Some \<lparr>result_query_id = qid,
                result_status = current_status final_state,
                result_response = final_response final_state,
                result_confidence = total_confidence final_state,
                result_agents_used = agents_visited final_state,
                result_processing_times = processing_times final_state,
                result_errors = errors final_state,
                result_metadata = metadata final_state\<rparr>
      | Some (Inl (etype, e)) \<Rightarrow>
          Some \<lparr>result_query_id = qid,
                result_status = FAILED,
                result_response = Some (''Workflow execution failed: '' @ e),
                result_confidence = 0,
                result_agents_used = [],
                result_processing_times = [],
                result_errors = [e],
                result_metadata = \<lparr>entries = [(''error_type'', etype)], validation = None\<rparr>\<rparr>)"


section \<open>Communication protocol (AgentCommunicationProtocol)\<close>

record Message =
  msg_from :: string
  msg_to :: string
  msg_type :: string
  msg_content :: string
  msg_timestamp :: string

record 'a AgentCommunicationProtocol =
  message_queue :: "(string \<times> Message list) list"
  agent_registry :: "(string \<times> 'a) list"

definition protocol_init :: "'a AgentCommunicationProtocol" where
  "protocol_init = \<lparr>message_queue = [], agent_registry = []\<rparr>"

definition register_agent ::
  "'a AgentCommunicationProtocol \<Rightarrow> string \<Rightarrow> 'a \<Rightarrow> 'a AgentCommunicationProtocol" where
  "register_agent p agent_name agent_instance =
     p\<lparr>agent_registry := dict_set (agent_registry p) agent_name agent_instance,
       message_queue := dict_set (message_queue p) agent_name []\<rparr>"

text \<open>\<^verbatim>\<open>send_message\<close>; the last argument is the time stamp of the message.\<close>

definition send_message ::
  "'a AgentCommunicationProtocol \<Rightarrow> string \<Rightarrow> string \<Rightarrow> string \<Rightarrow> string \<Rightarrow> string \<Rightarrow>
   'a AgentCommunicationProtocol" where
  "send_message p from_agent to_agent message_type cont ts =
     (let message = \<lparr>msg_from = from_agent, msg_to = to_agent, msg_type = message_type,
                      msg_content = cont, msg_timestamp = ts\<rparr>
      in case map_of (message_queue p) to_agent of
           Some q \<Rightarrow> p\<lparr>message_queue := dict_set (message_queue p) to_agent (q @ [message])\<rparr>
         | None \<Rightarrow> p)"

definition receive_messages ::
  "'a AgentCommunicationProtocol \<Rightarrow> string \<Rightarrow> Message list \<times> 'a AgentCommunicationProtocol" where
  "receive_messages p agent_name =
     (case map_of (message_queue p) agent_name of
        Some msgs \<Rightarrow> (msgs, p\<lparr>message_queue := dict_set (message_queue p) agent_name []\<rparr>)
      | None \<Rightarrow> ([], p))"

section \<open>The weighting rule and the substring test as the specification words them\<close>

text \<open>
  The specification's weighted average, stated independently of the loop of
  \<^verbatim>\<open>synthesize_responses\<close>: weight 1 for a response without error, 1/2 otherwise, and
  the default 1/2 when the total weight is 0.
\<close>

definition spec_weight :: "AgentResponse \<Rightarrow> real" where
  "spec_weight r = (if error r = None then 1 else 1 / 2)"

definition spec_weighted_average :: "AgentResponse list \<Rightarrow> real" where
  "spec_weighted_average rs =
     (if sum_list (map spec_weight rs) = 0 then 1 / 2
      else sum_list (map (\<lambda>r. confidence r * spec_weight r) rs) / sum_list (map spec_weight rs))"

text \<open>
  The specification's test that the lower-cased query contains the substring \<^verbatim>\<open>code\<close>,
  stated on the query as it is written, independently of \<open>str_lower\<close>: \<open>spells_code w\<close> holds
  when \<open>w\<close> is the four letters c, o, d, e in this order, each in either case.
\<close>

definition spells_code :: "string \<Rightarrow> bool" where
  "spells_code w =
     list_all2 (\<lambda>c (l, u). c = l \<or> c = u) w
       [(CHR ''c'', CHR ''C''), (CHR ''o'', CHR ''O''), (CHR ''d'', CHR ''D''),
        (CHR ''e'', CHR ''E'')]"

section \<open>Example inputs\<close>

text \<open>A good and a degraded agent response.\<close>

definition response_good :: AgentResponse where
  "response_good =
     \<lparr>agent_type = Agent_RESEARCH, content = replicate 60 (CHR ''a''), confidence = 9 / 10,
      processing_time = 1, response_metadata = [], sources = [], error = None\<rparr>"

definition response_bad :: AgentResponse where
  "response_bad =
     \<lparr>agent_type = Agent_CODE, content = ''Code generation failed'', confidence = 2 / 10,
      processing_time = 0, response_metadata = [], sources = [], error = Some ''boom''\<rparr>"

text \<open>
  An environment with the default \<^verbatim>\<open>retry_max_attempts = 3\<close> in which every agent and the
  combining call raise, and one in which they all succeed.
\<close>

definition env_failing :: Env where
  "env_failing =
     \<lparr>retry_max_attempts = 3,
      decision_route_query = (\<lambda>s. ([Agent_RESEARCH], MEDIUM)),
      research_agent_process = (\<lambda>s. Inl ''timeout''),
      code_agent_process = (\<lambda>s. Inl ''timeout''),
      decision_agent_process = (\<lambda>s. Inl ''timeout''),
      llm_ainvoke = (\<lambda>s. Inl ''llm down''),
      format_2f = (\<lambda>x. ''0.00''),
      utcnow_isoformat = (\<lambda>s. ''2024-01-01T00:00:00'')\<rparr>"

definition env_ok :: Env where
  "env_ok =
     \<lparr>retry_max_attempts = 3,
      decision_route_query = (\<lambda>s. ([Agent_RESEARCH], MEDIUM)),
      research_agent_process = (\<lambda>s. Inr (response_good, 1)),
      code_agent_process = (\<lambda>s. Inr (response_good, 1)),
      decision_agent_process = (\<lambda>s. Inr (response_good, 1)),
      llm_ainvoke = (\<lambda>s. Inr ''combined answer''),
      format_2f = (\<lambda>x. ''0.67''),
      utcnow_isoformat = (\<lambda>s. ''2024-01-01T00:00:00'')\<rparr>"

text \<open>The state \<^verbatim>\<open>execute\<close> starts from for a general query, and states derived from it.\<close>

definition state0 :: WorkflowState where
  "state0 = initial_state ''q1'' ''What is Rust'' GENERAL []"

definition state_one :: WorkflowState where
  "state_one = state0\<lparr>agent_responses := [(''research'', response_good)]\<rparr>"

definition state_two :: WorkflowState where
  "state_two =
     state0\<lparr>agent_responses := [(''research'', response_good), (''code'', response_bad)]\<rparr>"



text \<open>
  One retry generation of the run in \<open>env_failing\<close> for a general query: the router, the
  research node, whose agent raises, and the synthesizer. The state before the validator on
  the last permitted retry is the state after three generations with the validator between
  them; its \<open>retry_count\<close> is 2.
\<close>

definition pass_failing :: "WorkflowState \<Rightarrow> WorkflowState" where
  "pass_failing s =
     synthesize_responses env_failing (research_node env_failing (route_query env_failing s))"

definition state_last_retry :: WorkflowState where
  "state_last_retry =
     pass_failing (validate_response env_failing
       (pass_failing (validate_response env_failing (pass_failing state0))))"

text \<open>A general query that spells \<^verbatim>\<open>code\<close> in capitals.\<close>

definition state_upper :: WorkflowState where
  "state_upper = initial_state ''q2'' ''Write CODE for me'' GENERAL []"

text \<open>A query of type CODE, before and after the router.\<close>

definition state_code_query :: WorkflowState where
  "state_code_query = initial_state ''q3'' ''Sort a list'' CODE []"

definition state_code_routed :: WorkflowState where
  "state_code_routed = route_query env_failing state_code_query"


text \<open>A protocol in which \<^verbatim>\<open>research\<close> is registered and has one undelivered message.\<close>

definition protocol_pending :: "string AgentCommunicationProtocol" where
  "protocol_pending =
     send_message (register_agent protocol_init ''research'' ''handle-1'')
       ''code'' ''research'' ''info'' ''hello'' ''2024-01-01T00:00:00''"

section \<open>Auxiliary facts\<close>

lemma map_of_dict_set: "map_of (dict_set d k v) = (map_of d)(k \<mapsto> v)"
  by (induction d k v rule: dict_set.induct) (auto simp: fun_eq_iff)

lemma keys_dict_set: "set (map fst (dict_set d k v)) = insert k (set (map fst d))"
  by (induction d k v rule: dict_set.induct) auto

lemma dict_set_twice: "dict_set (dict_set d k v) k w = dict_set d k w"
  by (induction d k v rule: dict_set.induct) auto

text \<open>\<open>str_contains\<close> decides the substring relation.\<close>

lemma str_contains_iff: "str_contains p s \<longleftrightarrow> (\<exists>a b. s = a @ p @ b)"
proof (induction s)
  case Nil
  then show ?case by auto
next
  case (Cons c cs)
  show ?case
  proof
    assume "str_contains p (c # cs)"
    then consider "take (length p) (c # cs) = p" | "str_contains p cs" by auto
    then show "\<exists>a b. c # cs = a @ p @ b"
    proof cases
      case 1
      then have "c # cs = [] @ p @ drop (length p) (c # cs)"
        by (metis append_Nil append_take_drop_id)
      then show ?thesis by blast
    next
      case 2
      then obtain a b where "cs = a @ p @ b" using Cons.IH by auto
      then have "c # cs = (c # a) @ p @ b" by simp
      then show ?thesis by blast
    qed
  next
    assume "\<exists>a b. c # cs = a @ p @ b"
    then obtain a b where ab: "c # cs = a @ p @ b" by auto
    show "str_contains p (c # cs)"
    proof (cases a)
      case Nil
      then have "take (length p) (c # cs) = p" using ab by simp
      then show ?thesis by simp
    next
      case (Cons x a')
      then have "cs = a' @ p @ b" using ab by simp
      then have "str_contains p cs" using Cons.IH by blast
      then show ?thesis by simp
    qed
  qed
qed

lemma no_code_in_example_query: "\<not> str_contains ''code'' (str_lower ''What is Rust'')"
  by code_simp

lemma weighted_confidence_sums:
  "weighted_confidence rs (tc, tw) =
     (tc + sum_list (map (\<lambda>r. confidence r * spec_weight r) (map snd rs)),
      tw + sum_list (map spec_weight (map snd rs)))"
  by (induction rs "(tc, tw)" arbitrary: tc tw rule: weighted_confidence.induct)
     (simp_all add: spec_weight_def Let_def)

lemma sum_spec_weight_nonneg: "0 \<le> sum_list (map spec_weight rs)"
  by (rule sum_list_nonneg) (auto simp: spec_weight_def)

lemma sum_spec_weight_pos: "rs \<noteq> [] \<Longrightarrow> 0 < sum_list (map spec_weight rs)"
proof (induction rs)
  case Nil
  then show ?case by simp
next
  case (Cons r rs)
  have "0 < spec_weight r" by (simp add: spec_weight_def)
  then show ?case using sum_spec_weight_nonneg [of rs] by simp
qed

lemma synth_confidence:
  "(let (tc, tw) = weighted_confidence rs (0, 0) in if tw > 0 then tc / tw else 1 / 2)
     = spec_weighted_average (map snd rs)"
  using sum_spec_weight_nonneg [of "map snd rs"]
  by (auto simp: weighted_confidence_sums spec_weighted_average_def)

text \<open>Lower-casing maps exactly the two cases of a letter to the lower-case letter.\<close>

lemma of_char_char_lower:
  "(of_char (char_lower c) :: nat) =
     (if 65 \<le> (of_char c :: nat) \<and> (of_char c :: nat) \<le> 90 then of_char c + 32
      else of_char c)"
  by (simp add: char_lower_def Let_def)

lemma char_lower_eq_iff:
  assumes "(of_char l :: nat) = of_char u + 32" "65 \<le> (of_char u :: nat)"
    "(of_char u :: nat) \<le> 90"
  shows "char_lower c = l \<longleftrightarrow> c = l \<or> c = u"
proof -
  have "char_lower c = l \<longleftrightarrow> (of_char (char_lower c) :: nat) = of_char l"
    by (simp only: of_char_eq_iff)
  also have "\<dots> \<longleftrightarrow> (of_char c :: nat) = of_char l \<or> (of_char c :: nat) = of_char u"
    using assms by (auto simp: of_char_char_lower)
  also have "\<dots> \<longleftrightarrow> c = l \<or> c = u"
    by (simp only: of_char_eq_iff)
  finally show ?thesis .
qed

lemma char_lower_code:
  "char_lower c = CHR ''c'' \<longleftrightarrow> c = CHR ''c'' \<or> c = CHR ''C''"
  "char_lower c = CHR ''o'' \<longleftrightarrow> c = CHR ''o'' \<or> c = CHR ''O''"
  "char_lower c = CHR ''d'' \<longleftrightarrow> c = CHR ''d'' \<or> c = CHR ''D''"
  "char_lower c = CHR ''e'' \<longleftrightarrow> c = CHR ''e'' \<or> c = CHR ''E''"
  by (rule char_lower_eq_iff; simp)+

lemma lower_is_code: "str_lower w = ''code'' \<longleftrightarrow> spells_code w"
  by (auto simp: str_lower_def spells_code_def list_all2_Cons2 char_lower_code)

text \<open>
  The test of \<^verbatim>\<open>after_research\<close> on the lower-cased query holds exactly when the query
  as written contains the word in some mixture of cases.
\<close>

lemma lower_contains_code:
  "str_contains ''code'' (str_lower q) \<longleftrightarrow> (\<exists>a w b. q = a @ w @ b \<and> spells_code w)"
proof
  assume "str_contains ''code'' (str_lower q)"
  then obtain a b where "map char_lower q = a @ ''code'' @ b"
    by (auto simp: str_contains_iff str_lower_def)
  then obtain us vs where q: "q = us @ vs" and "map char_lower vs = ''code'' @ b"
    by (auto simp: map_eq_append_conv)
  then have "\<exists>w t. vs = w @ t \<and> ''code'' = map char_lower w \<and> b = map char_lower t"
    by (simp only: map_eq_append_conv)
  then obtain w t where vs: "vs = w @ t" and "map char_lower w = ''code''"
    by metis
  then have "spells_code w" using lower_is_code [of w] by (simp add: str_lower_def)
  with q vs show "\<exists>a w b. q = a @ w @ b \<and> spells_code w" by blast
next
  assume "\<exists>a w b. q = a @ w @ b \<and> spells_code w"
  then obtain a w b where q: "q = a @ w @ b" and "spells_code w" by blast
  then have "str_lower w = ''code''" by (simp add: lower_is_code)
  with q have "str_lower q = str_lower a @ ''code'' @ str_lower b"
    by (simp add: str_lower_def)
  then show "str_contains ''code'' (str_lower q)"
    unfolding str_contains_iff by blast
qed

text \<open>
  When the code agent and the research agent both raise on a query of type CODE, no visit
  is recorded, so each of the two nodes sends the run to the other and the run does not
  reach \<^verbatim>\<open>END\<close>, whatever the bound on the number of node executions.
\<close>

lemma failing_agents_loop:
  "agents_visited s = [] \<Longrightarrow> query_type s = CODE \<Longrightarrow> confidence_scores s = [] \<Longrightarrow>
   run_graph fuel env_failing Node_code s = None \<and>
   run_graph fuel env_failing Node_research s = None"
proof (induction fuel arbitrary: s)
  case 0
  then show ?case by simp
next
  case (Suc fuel)
  let ?c = "code_node env_failing s" and ?r = "research_node env_failing s"
  have c: "agents_visited ?c = []" "query_type ?c = CODE" "confidence_scores ?c = []"
    using Suc.prems by (simp_all add: code_node_def env_failing_def)
  have r: "agents_visited ?r = []" "query_type ?r = CODE" "confidence_scores ?r = []"
    using Suc.prems by (simp_all add: research_node_def env_failing_def)
  have nc: "next_node env_failing Node_code ?c = Some Node_research"
    using c by (simp add: after_code_def code_edges_def dict_get_def)
  have nr: "next_node env_failing Node_research ?r = Some Node_code"
    using r by (simp add: after_research_def research_edges_def)
  from Suc.IH [OF c] Suc.IH [OF r] nc nr show ?case by simp
qed

lemma failing_code_query_never_ends:
  "execute fuel env_failing qid q CODE md = None"
proof (cases fuel)
  case 0
  then show ?thesis by (simp add: execute_def)
next
  case (Suc k)
  let ?s = "route_query env_failing (initial_state qid q CODE md)"
  have i: "agents_visited ?s = []" "query_type ?s = CODE" "confidence_scores ?s = []"
    by (simp_all add: route_query_def initial_state_def env_failing_def Let_def)
  have "next_node env_failing Node_router ?s = Some Node_code"
    using i by (simp add: determine_next_agent_def router_edges_def)
  with failing_agents_loop [OF i, of k] Suc show ?thesis
    by (simp add: execute_def)
qed









section \<open>Routing after the research node\<close>

text \<open>
  Claim C9. The transition after the research node is evaluated in this order: if
  \<^verbatim>\<open>code\<close> is not in \<open>agents_visited\<close> and the query type is CODE or the lower-cased query
  contains the substring \<^verbatim>\<open>code\<close>, the next node is the code node; else if \<^verbatim>\<open>decision\<close>
  is not in \<open>agents_visited\<close> and the query type is DECISION, the decision node; else the
  synthesizer. In particular a GENERAL query without the substring goes to the
  synthesizer. The test on the lower-cased query is stated on the query as written: it
  contains the four letters in some mixture of cases.
\<close>

theorem after_research_order:
  "after_research s =
     (if ''code'' \<notin> set (agents_visited s) \<and>
         (query_type s = CODE \<or> (\<exists>a w b. original_query s = a @ w @ b \<and> spells_code w))
      then ''code''
      else if ''decision'' \<notin> set (agents_visited s) \<and> query_type s = DECISION
      then ''decision'' else ''synthesizer'')
   \<and> next_node env Node_research s =
       Some (if ''code'' \<notin> set (agents_visited s) \<and>
                (query_type s = CODE \<or>
                 (\<exists>a w b. original_query s = a @ w @ b \<and> spells_code w))
             then Node_code
             else if ''decision'' \<notin> set (agents_visited s) \<and> query_type s = DECISION
             then Node_decision else Node_synthesizer)
   \<and> (query_type s = GENERAL \<and> ''code'' \<notin> set (agents_visited s) \<and>
      \<not> (\<exists>a w b. original_query s = a @ w @ b \<and> spells_code w)
        \<longrightarrow> next_node env Node_research s = Some Node_synthesizer)"
  unfolding lower_contains_code [symmetric]
  by (simp add: after_research_def research_edges_def)

text \<open>
  A general query without the word goes to the synthesizer; a general query with the word
  in capitals goes to the code node, and to the synthesizer once the code node has been
  visited; a DECISION query without the word goes to the decision node.
\<close>

theorem after_research_order_witness:
  "query_type state0 = GENERAL
   \<and> ''code'' \<notin> set (agents_visited state0)
   \<and> original_query state0 = ''What is Rust''
   \<and> next_node env_ok Node_research state0 = Some Node_synthesizer
   \<and> query_type state_upper = GENERAL
   \<and> original_query state_upper = ''Write CODE for me''
   \<and> next_node env_ok Node_research state_upper = Some Node_code
   \<and> next_node env_ok Node_research (state_upper\<lparr>agents_visited := [''research'', ''code'']\<rparr>)
       = Some Node_synthesizer
   \<and> next_node env_ok Node_research (state0\<lparr>query_type := DECISION\<rparr>) = Some Node_decision"
proof -
  define P0 where "P0 \<longleftrightarrow> (\<exists>a w b. original_query state0 = a @ w @ b \<and> spells_code w)"
  define P1 where "P1 \<longleftrightarrow> (\<exists>a w b. original_query state_upper = a @ w @ b \<and> spells_code w)"
  have q0: "query_type state0 = GENERAL" "agents_visited state0 = []"
    "original_query state0 = ''What is Rust''"
    by (simp_all add: state0_def initial_state_def)
  have n0: "\<not> P0"
    unfolding P0_def lower_contains_code [symmetric] q0 by (rule no_code_in_example_query)
  have q1: "query_type state_upper = GENERAL" "agents_visited state_upper = []"
    "original_query state_upper = ''Write CODE for me''"
    by (simp_all add: state_upper_def initial_state_def)
  have "''Write CODE for me'' = ''Write '' @ ''CODE'' @ '' for me'' \<and> spells_code ''CODE''"
    by (simp add: spells_code_def)
  then have y1: "P1"
    unfolding P1_def q1 by blast
  let ?v = "state_upper\<lparr>agents_visited := [''research'', ''code'']\<rparr>"
  let ?d = "state0\<lparr>query_type := DECISION\<rparr>"
  have e: "original_query ?v = original_query state_upper"
    "original_query ?d = original_query state0"
    by simp_all
  from after_research_order [of state0 env_ok, folded P0_def] q0(1,2) n0
  have r0: "next_node env_ok Node_research state0 = Some Node_synthesizer"
    by (simp add: research_edges_def)
  from after_research_order [of state_upper env_ok, folded P1_def] q1(1,2) y1
  have r1: "next_node env_ok Node_research state_upper = Some Node_code"
    by (simp add: research_edges_def)
  from after_research_order [of ?v env_ok, unfolded e, folded P1_def] q1(1,2)
  have r2: "next_node env_ok Node_research ?v = Some Node_synthesizer"
    by (simp add: research_edges_def)
  from after_research_order [of ?d env_ok, unfolded e, folded P0_def] q0(1,2) n0
  have r3: "next_node env_ok Node_research ?d = Some Node_decision"
    by (simp add: research_edges_def)
  from q0 q1 r0 r1 r2 r3 show ?thesis by simp
qed

section \<open>Registering an agent again\<close>

text \<open>
  Claim C10. \<^verbatim>\<open>register_agent\<close> with any role name, in particular one that is already
  registered, stores the new handle under the name and resets the name's message queue to
  the empty list: the messages that were queued for it are gone, the next
  \<^verbatim>\<open>receive_messages\<close> returns nothing, and the queues of the other names are unchanged.
\<close>

theorem register_agent_resets_queue:
  "map_of (agent_registry (register_agent p n a)) n = Some a
   \<and> map_of (message_queue (register_agent p n a)) n = Some []
   \<and> receive_messages (register_agent p n a) n = ([], register_agent p n a)
   \<and> (\<forall>m. m \<noteq> n \<longrightarrow>
        map_of (message_queue (register_agent p n a)) m = map_of (message_queue p) m)"
  by (simp add: register_agent_def receive_messages_def map_of_dict_set dict_set_twice)

theorem register_agent_resets_queue_witness:
  "map_of (agent_registry protocol_pending) ''research'' = Some ''handle-1''
   \<and> map_of (message_queue protocol_pending) ''research'' =
       Some [\<lparr>msg_from = ''code'', msg_to = ''research'', msg_type = ''info'',
              msg_content = ''hello'', msg_timestamp = ''2024-01-01T00:00:00''\<rparr>]
   \<and> map_of (agent_registry (register_agent protocol_pending ''research'' ''handle-2''))
       ''research'' = Some ''handle-2''
   \<and> fst (receive_messages (register_agent protocol_pending ''research'' ''handle-2'')
       ''research'') = []"
  using register_agent_resets_queue [of protocol_pending "''research''" "''handle-2''"]
  by (simp add: protocol_pending_def protocol_init_def register_agent_def send_message_def)

section \<open>The synthesizer\<close>

text \<open>
  Claim C6. With no agent response the synthesizer sets the final response to
  \<^verbatim>\<open>No agent responses available\<close> and the confidence to 0. With exactly one response it
  passes that response's content and confidence through. In both cases the result does
  not depend on the combining call, so none is made. With two or more responses and a
  combining call that returns, the confidence is the weighted average of the
  specification (weight 1 without error, 1/2 with an error, default 1/2 for total weight
  0, which cannot occur since the total weight is positive), and the final response is
  the combined text.
\<close>

theorem synthesize_responses_cases:
  "(agent_responses s = [] \<longrightarrow>
      final_response (synthesize_responses env s) = Some ''No agent responses available'' \<and>
      total_confidence (synthesize_responses env s) = 0)
   \<and> (agent_responses s = [(k, r)] \<longrightarrow>
      final_response (synthesize_responses env s) = Some (content r) \<and>
      total_confidence (synthesize_responses env s) = confidence r)
   \<and> (length (agent_responses s) \<le> 1 \<longrightarrow>
      synthesize_responses (env\<lparr>llm_ainvoke := f\<rparr>) s = synthesize_responses env s)
   \<and> (2 \<le> length (agent_responses s) \<and> llm_ainvoke env s = Inr txt \<longrightarrow>
      final_response (synthesize_responses env s) = Some txt \<and>
      total_confidence (synthesize_responses env s) =
        spec_weighted_average (map snd (agent_responses s)) \<and>
      0 < sum_list (map spec_weight (map snd (agent_responses s))))"
proof (intro conjI impI)
  assume "agent_responses s = []"
  then show "final_response (synthesize_responses env s) = Some ''No agent responses available''"
    and "total_confidence (synthesize_responses env s) = 0"
    by (simp_all add: synthesize_responses_def)
next
  assume "agent_responses s = [(k, r)]"
  then show "final_response (synthesize_responses env s) = Some (content r)"
    and "total_confidence (synthesize_responses env s) = confidence r"
    by (simp_all add: synthesize_responses_def)
next
  assume le: "length (agent_responses s) \<le> 1"
  show "synthesize_responses (env\<lparr>llm_ainvoke := f\<rparr>) s = synthesize_responses env s"
  proof (cases "agent_responses s")
    case Nil
    then show ?thesis by (simp add: synthesize_responses_def)
  next
    case (Cons x xs)
    with le have "xs = []" by simp
    with Cons show ?thesis by (simp add: synthesize_responses_def)
  qed
next
  assume h: "2 \<le> length (agent_responses s) \<and> llm_ainvoke env s = Inr txt"
  then have ne: "agent_responses s \<noteq> []" and n1: "length (agent_responses s) \<noteq> 1"
    by auto
  obtain tc tw where w: "weighted_confidence (agent_responses s) (0, 0) = (tc, tw)"
    by (cases "weighted_confidence (agent_responses s) (0, 0)")
  from ne n1 h w show "final_response (synthesize_responses env s) = Some txt"
    by (simp add: synthesize_responses_def Let_def)
  have "total_confidence (synthesize_responses env s) = (if tw > 0 then tc / tw else 1 / 2)"
    using ne n1 h w by (simp add: synthesize_responses_def Let_def)
  also have "\<dots> = spec_weighted_average (map snd (agent_responses s))"
    using synth_confidence [of "agent_responses s"] w by simp
  finally show "total_confidence (synthesize_responses env s) =
        spec_weighted_average (map snd (agent_responses s))" .
  show "0 < sum_list (map spec_weight (map snd (agent_responses s)))"
    using ne by (intro sum_spec_weight_pos) simp
qed

text \<open>
  The three cases at concrete inputs; the last is the specification's example, confidences
  0.9 without error and 0.2 with an error, which give 2/3, that is 0.6667 up to rounding.
\<close>

theorem synthesize_responses_cases_witness:
  "agent_responses state0 = []
   \<and> final_response (synthesize_responses env_failing state0) =
       Some ''No agent responses available''
   \<and> total_confidence (synthesize_responses env_failing state0) = 0
   \<and> agent_responses state_one = [(''research'', response_good)]
   \<and> final_response (synthesize_responses env_failing state_one) = Some (content response_good)
   \<and> total_confidence (synthesize_responses env_failing state_one) = 9 / 10
   \<and> 2 \<le> length (agent_responses state_two)
   \<and> llm_ainvoke env_ok state_two = Inr ''combined answer''
   \<and> final_response (synthesize_responses env_ok state_two) = Some ''combined answer''
   \<and> total_confidence (synthesize_responses env_ok state_two) = 2 / 3
   \<and> \<bar>total_confidence (synthesize_responses env_ok state_two) - 6667 / 10000\<bar> < 1 / 10000"
proof -
  have a0: "agent_responses state0 = []"
    by (simp add: state0_def initial_state_def)
  have a1: "agent_responses state_one = [(''research'', response_good)]"
    by (simp add: state_one_def)
  have a2: "2 \<le> length (agent_responses state_two) \<and>
            llm_ainvoke env_ok state_two = Inr ''combined answer''"
    by (simp add: state_two_def env_ok_def)
  have avg: "spec_weighted_average (map snd (agent_responses state_two)) = 2 / 3"
    by (simp add: state_two_def spec_weighted_average_def spec_weight_def
        response_good_def response_bad_def)
  have c: "confidence response_good = 9 / 10"
    by (simp add: response_good_def)
  note t0 = synthesize_responses_cases [of state0 env_failing]
  note t1 = synthesize_responses_cases [of state_one env_failing "''research''" response_good]
  note t2 = synthesize_responses_cases [of state_two env_ok _ _ _ "''combined answer''"]
  from t0 a0 have r0:
    "final_response (synthesize_responses env_failing state0) =
       Some ''No agent responses available''"
    "total_confidence (synthesize_responses env_failing state0) = 0"
    by blast+
  from t1 a1 c have r1:
    "final_response (synthesize_responses env_failing state_one) = Some (content response_good)"
    "total_confidence (synthesize_responses env_failing state_one) = 9 / 10"
    by simp_all
  from t2 a2 avg have r2:
    "final_response (synthesize_responses env_ok state_two) = Some ''combined answer''"
    "total_confidence (synthesize_responses env_ok state_two) = 2 / 3"
    by simp_all
  have r3: "\<bar>total_confidence (synthesize_responses env_ok state_two) - 6667 / 10000\<bar> < 1 / 10000"
    by (simp add: r2)
  from a0 a1 a2 r0 r1 r2 r3 show ?thesis by blast
qed

text \<open>
  Claim C8, as stated (the combining step fails and the synthesizer yields the text
  \<^verbatim>\<open>No agent responses available\<close>), fails: with two responses and a combining call that
  raises, the final response is another text.
\<close>

theorem synthesis_failure_text_counterexample:
  "2 \<le> length (agent_responses state_two)
   \<and> llm_ainvoke env_failing state_two = Inl ''llm down''
   \<and> final_response (synthesize_responses env_failing state_two) \<noteq>
       Some ''No agent responses available''"
  by (simp add: synthesize_responses_def state_two_def env_failing_def)

text \<open>
  Claim C8, amended. When the combining call raises, the synthesizer sets the final
  response to the fixed text \<^verbatim>\<open>Failed to synthesize responses\<close> and the confidence to 0,
  appends \<^verbatim>\<open>Synthesis: \<close> followed by the error text to \<open>errors\<close>, changes nothing else,
  and the workflow proceeds to the validator.
\<close>

theorem synthesize_failure_absorbed:
  "2 \<le> length (agent_responses s) \<Longrightarrow> llm_ainvoke env s = Inl e \<Longrightarrow>
   synthesize_responses env s =
     s\<lparr>errors := errors s @ [''Synthesis: '' @ e],
       final_response := Some ''Failed to synthesize responses'',
       total_confidence := 0\<rparr>
   \<and> next_node env Node_synthesizer (synthesize_responses env s) = Some Node_validator"
proof -
  assume a: "2 \<le> length (agent_responses s)" and b: "llm_ainvoke env s = Inl e"
  from a have "agent_responses s \<noteq> []" "length (agent_responses s) \<noteq> 1" by auto
  with b show ?thesis by (simp add: synthesize_responses_def)
qed

theorem synthesize_failure_absorbed_witness:
  "2 \<le> length (agent_responses state_two)
   \<and> llm_ainvoke env_failing state_two = Inl ''llm down''
   \<and> final_response (synthesize_responses env_failing state_two) =
       Some ''Failed to synthesize responses''
   \<and> total_confidence (synthesize_responses env_failing state_two) = 0
   \<and> errors (synthesize_responses env_failing state_two) = [''Synthesis: llm down'']
   \<and> next_node env_failing Node_synthesizer (synthesize_responses env_failing state_two) =
       Some Node_validator"
proof -
  have a: "2 \<le> length (agent_responses state_two)"
    by (simp add: state_two_def)
  have b: "llm_ainvoke env_failing state_two = Inl ''llm down''"
    by (simp add: env_failing_def)
  have e: "errors state_two = []"
    by (simp add: state_two_def state0_def initial_state_def)
  from synthesize_failure_absorbed [OF a b] a b e show ?thesis by simp
qed

section \<open>Agent execution nodes on a failing collaborator\<close>

text \<open>
  Claim C2 says that a node whose collaborator raises absorbs the failure (a degraded
  response under the role's key, a string appended to \<open>errors\<close>) and performs the side
  effects of a successful invocation, among them the append of the role to
  \<open>agents_visited\<close>. The \<^verbatim>\<open>except\<close> branch of the nodes does the first and none of the
  second, while the \<^verbatim>\<open>try\<close> branch appends the role. On a query of type CODE for which
  the code agent and the research agent raise, the code node returns the state with the
  degraded response and the error string only; \<open>agents_visited\<close>, \<open>confidence_scores\<close>,
  \<open>processing_times\<close> and \<open>messages\<close> are as before. The tests
  \<^verbatim>\<open>"research" not in agents_visited\<close> of \<^verbatim>\<open>after_code\<close> and
  \<^verbatim>\<open>"code" not in agents_visited\<close> of \<^verbatim>\<open>after_research\<close> then send the run from the code
  node to the research node and back, and the run has not reached \<^verbatim>\<open>END\<close> after 25 nor
  after 1000 node executions.
\<close>

theorem agent_node_failure_visit_not_recorded:
  "code_agent_process env_failing state_code_routed = Inl ''timeout''
   \<and> code_node env_failing state_code_routed =
       state_code_routed
         \<lparr>errors := [''Code agent: timeout''],
          agent_responses :=
            [(''code'', \<lparr>agent_type = Agent_CODE, content = ''Code generation failed'',
                         confidence = 0, processing_time = 0, response_metadata = [],
                         sources = [], error = Some ''timeout''\<rparr>)]\<rparr>
   \<and> agents_visited (code_node env_failing state_code_routed) = []
   \<and> confidence_scores (code_node env_failing state_code_routed) = []
   \<and> processing_times (code_node env_failing state_code_routed) = []
   \<and> messages (code_node env_failing state_code_routed) = messages state_code_routed
   \<and> next_node env_failing Node_router state_code_routed = Some Node_code
   \<and> next_node env_failing Node_code (code_node env_failing state_code_routed) =
       Some Node_research
   \<and> next_node env_failing Node_research
         (research_node env_failing (code_node env_failing state_code_routed)) = Some Node_code
   \<and> execute 25 env_failing ''q3'' ''Sort a list'' CODE [] = None
   \<and> execute 1000 env_failing ''q3'' ''Sort a list'' CODE [] = None"
proof -
  have s: "agents_visited state_code_routed = []" "confidence_scores state_code_routed = []"
    "processing_times state_code_routed = []" "errors state_code_routed = []"
    "agent_responses state_code_routed = []" "query_type state_code_routed = CODE"
    by (simp_all add: state_code_routed_def state_code_query_def route_query_def
        initial_state_def env_failing_def Let_def)
  have p: "code_agent_process env_failing = (\<lambda>s. Inl ''timeout'')"
    "research_agent_process env_failing = (\<lambda>s. Inl ''timeout'')"
    by (simp_all add: env_failing_def)
  have c: "code_node env_failing state_code_routed =
       state_code_routed
         \<lparr>errors := [''Code agent: timeout''],
          agent_responses :=
            [(''code'', \<lparr>agent_type = Agent_CODE, content = ''Code generation failed'',
                         confidence = 0, processing_time = 0, response_metadata = [],
                         sources = [], error = Some ''timeout''\<rparr>)]\<rparr>"
    by (simp add: code_node_def p s)
  have n0: "next_node env_failing Node_router state_code_routed = Some Node_code"
    by (simp add: determine_next_agent_def router_edges_def s)
  have n1: "next_node env_failing Node_code (code_node env_failing state_code_routed) =
       Some Node_research"
    by (simp add: c after_code_def code_edges_def dict_get_def s)
  have n2: "next_node env_failing Node_research
         (research_node env_failing (code_node env_failing state_code_routed)) = Some Node_code"
    by (simp add: research_node_def c p after_research_def research_edges_def s)
  have a: "code_agent_process env_failing state_code_routed = Inl ''timeout''"
    by (simp add: p)
  have f: "agents_visited (code_node env_failing state_code_routed) = []"
    "confidence_scores (code_node env_failing state_code_routed) = []"
    "processing_times (code_node env_failing state_code_routed) = []"
    "messages (code_node env_failing state_code_routed) = messages state_code_routed"
    by (simp_all add: c s)
  have e: "execute 25 env_failing ''q3'' ''Sort a list'' CODE [] = None"
    "execute 1000 env_failing ''q3'' ''Sort a list'' CODE [] = None"
    by (rule failing_code_query_never_ends)+
  show ?thesis
    by (intro conjI) (rule a c f n0 n1 n2 e)+
qed

section \<open>The validator's criteria\<close>



section \<open>Visited roles and stored responses\<close>

text \<open>
  Claim C3 says that in every reachable state \<open>agents_visited\<close> holds exactly the roles
  that have an entry in \<open>agent_responses\<close>, also after a failure. In the run for a general
  query whose research agent raises, the state the research node returns, from which the
  run goes on to the synthesizer, has an entry for \<^verbatim>\<open>research\<close> in \<open>agent_responses\<close> and
  an empty \<open>agents_visited\<close>; the result of \<^verbatim>\<open>execute\<close> lists no agent as used although
  its response is the degraded one of the research node.
\<close>

theorem visited_roles_differ_from_responses:
  "next_node env_failing Node_router (route_query env_failing state0) = Some Node_research
   \<and> research_agent_process env_failing (route_query env_failing state0) = Inl ''timeout''
   \<and> agents_visited (research_node env_failing (route_query env_failing state0)) = []
   \<and> map fst (agent_responses (research_node env_failing (route_query env_failing state0))) =
       [''research'']
   \<and> set (agents_visited (research_node env_failing (route_query env_failing state0))) \<noteq>
     set (map fst (agent_responses (research_node env_failing (route_query env_failing state0))))
   \<and> next_node env_failing Node_research
        (research_node env_failing (route_query env_failing state0)) = Some Node_synthesizer
   \<and> map_option result_agents_used (execute 12 env_failing ''q1'' ''What is Rust'' GENERAL [])
       = Some []
   \<and> map_option result_response (execute 12 env_failing ''q1'' ''What is Rust'' GENERAL [])
       = Some (Some ''Research failed'')"
  by code_simp

section \<open>The retry counter\<close>




section \<open>The status that \<^verbatim>\<open>execute\<close> returns\<close>


section \<open>The validator on the last retry\<close>

text \<open>
  Claim C4 says that after a failed validation with \<open>retry_count\<close> below the maximum the
  validator increments \<open>retry_count\<close>, leaves the status PROCESSING and the workflow
  returns to the router, and that the status is FAILED when the workflow ends after a
  failed validation. In the run of the default configuration with a research agent that
  raises, the validator is entered for the third time with \<open>retry_count = 2\<close>, below the
  maximum 3: it increments \<open>retry_count\<close> to 3 and sets the status PROCESSING, and
  \<^verbatim>\<open>should_retry\<close>, which compares the incremented count with the maximum, answers
  \<^verbatim>\<open>end\<close>: the workflow goes to \<^verbatim>\<open>END\<close> with the status PROCESSING.
\<close>

theorem last_retry_ends_processing:
  "retry_count state_last_retry = 2
   \<and> retry_max_attempts env_failing = 3
   \<and> current_status state_last_retry = PROCESSING
   \<and> map_option is_valid (validation (metadata (validate_response env_failing state_last_retry)))
       = Some False
   \<and> retry_count (validate_response env_failing state_last_retry) = 3
   \<and> current_status (validate_response env_failing state_last_retry) = PROCESSING
   \<and> should_retry env_failing (validate_response env_failing state_last_retry) = ''end''
   \<and> next_node env_failing Node_validator (validate_response env_failing state_last_retry) =
       Some Node_END"
  by code_simp

end
